theory Spec2Isabelle
  imports Complex_Main "HOL-Library.Char_ord" "HOL-Library.List_Lexorder"
begin

section \<open>Strings: the std::string operations of stabilize.cc\<close>

text \<open>
  \<^verbatim>\<open>std::string::rfind\<close> with a one-character pattern (the only use in stabilize.cc:
  "/", the backslash and "."): the index of the last occurrence, \<open>None\<close> standing for
  \<^verbatim>\<open>std::string::npos\<close>.
\<close>

fun rfind :: "string \<Rightarrow> char \<Rightarrow> nat option" where
  "rfind [] c = None"
| "rfind (x # xs) c =
     (case rfind xs c of
        Some i \<Rightarrow> Some (Suc i)
      | None \<Rightarrow> if x = c then Some 0 else None)"

text \<open>
  \<^verbatim>\<open>ReplaceFolder\<close> (stabilize.cc, lines 82-108). The flag \<open>win32\<close> selects the branch
  of the \<^verbatim>\<open>#ifdef WIN32\<close>. The test \<^verbatim>\<open>nf.rfind(sep) != nf.size()-1\<close> is reached only
  with a non-empty \<open>nf\<close> (the empty folder returns early), so \<^verbatim>\<open>nf.size()-1\<close> does not
  wrap and is the index of the last character. \<^verbatim>\<open>so.replace(0, n+1, nf)\<close> replaces the
  first \<open>n+1\<close> characters of \<open>so\<close> by \<open>nf\<close>. \<open>separator\<close> is the character
  appended to the folder: the backslash (\<open>CHR 0x5C\<close>) under WIN32, "/" otherwise.
\<close>

definition separator :: "bool \<Rightarrow> char" where
  "separator win32 = (if win32 then CHR 0x5C else CHR ''/'')"

definition ReplaceFolder :: "bool \<Rightarrow> string \<Rightarrow> string \<Rightarrow> string" where
  "ReplaceFolder win32 s new_folder =
     (if new_folder = [] then s
      else
        let sep = separator win32;
            n = (if win32
                 then (case rfind s (CHR 0x5C) of
                         None \<Rightarrow> rfind s (CHR ''/'')
                       | Some k \<Rightarrow> Some k)
                 else rfind s (CHR ''/''));
            nf = (if rfind new_folder sep \<noteq> Some (length new_folder - 1)
                  then new_folder @ [sep] else new_folder)
        in (case n of
              Some k \<Rightarrow> nf @ drop (k + 1) s
            | None \<Rightarrow> nf @ s))"

section \<open>3x3 matrices\<close>

text \<open>
  \<^verbatim>\<open>cv::Matx33d\<close> is OpenCV's fixed 3x3 matrix of doubles, stored row by row; a
  matrix is given by its nine entries. \<^verbatim>\<open>cv::Matx33d::eye()\<close> is the identity.
\<close>

datatype Matx33d = Matx33d real real real  real real real  real real real

definition eye :: Matx33d where
  "eye = Matx33d 1 0 0  0 1 0  0 0 1"

text \<open>
  \<^verbatim>\<open>cv::Matx33d::inv()\<close> and \<^verbatim>\<open>operator*\<close> belong to OpenCV and compute in double
  precision. They are not evaluated here: a matrix that the program computes with them
  is kept as the expression that computes it, \<open>Matx M\<close> for a given matrix \<open>M\<close>,
  \<open>Inv A\<close> for \<^verbatim>\<open>A.inv()\<close> and \<open>Mul A B\<close> for \<^verbatim>\<open>A * B\<close>.
\<close>

datatype Matx_expr = Matx Matx33d | Inv Matx_expr | Mul Matx_expr Matx_expr

text \<open>
  \<^verbatim>\<open>Mat3\<close> is libmv's 3x3 matrix of doubles (an Eigen matrix), read by \<^verbatim>\<open>mat3(j, i)\<close>.
  \<^verbatim>\<open>MatToMatx\<close> (stabilize.cc, lines 71-79) copies its nine entries.
\<close>

type_synonym Mat3 = "nat \<Rightarrow> nat \<Rightarrow> real"

definition MatToMatx :: "Mat3 \<Rightarrow> Matx33d" where
  "MatToMatx mat3 =
     Matx33d (mat3 0 0) (mat3 0 1) (mat3 0 2)
             (mat3 1 0) (mat3 1 1) (mat3 1 2)
             (mat3 2 0) (mat3 2 1) (mat3 2 2)"

section \<open>The chain of relative matrices\<close>

text \<open>
  A point matrix \<^verbatim>\<open>Mat\<close> with two rows is the list of its columns; \<^verbatim>\<open>cols()\<close> is the
  length of the list.
\<close>

type_synonym Vec2 = "real \<times> real"
type_synonym Mat = "Vec2 list"
type_synonym ImageID = int

text \<open>
  The match graph \<^verbatim>\<open>Matches\<close> (libmv/correspondence/matches.h) is used through two
  queries only: \<^verbatim>\<open>get_images()\<close>, a \<^verbatim>\<open>std::set<ImageID>\<close>, which is iterated in
  ascending order of the identifiers, and \<^verbatim>\<open>TwoViewPointMatchMatrices\<close>, which fills
  \<^verbatim>\<open>xs2[0]\<close> and \<^verbatim>\<open>xs2[1]\<close> with the matched points of the two images, column \<open>i\<close>
  of one matching column \<open>i\<close> of the other.
\<close>

record Matches =
  get_images :: "ImageID set"
  TwoViewPointMatchMatrices :: "ImageID \<Rightarrow> ImageID \<Rightarrow> Mat \<times> Mat"

text \<open>
  The four robust estimators of libmv/multiview are not among the sources; the chain
  functions take them as parameters. Each receives \<^verbatim>\<open>xs2[0]\<close>, \<^verbatim>\<open>xs2[1]\<close>,
  \<^verbatim>\<open>max_error_2d\<close> and \<^verbatim>\<open>outliers_prob\<close> and yields the matrix it stores.
\<close>

type_synonym estimator = "Mat \<Rightarrow> Mat \<Rightarrow> real \<Rightarrow> real \<Rightarrow> Mat3"

record Estimators =
  Euclidean2DFromCorrespondences2PointRobust :: estimator
  Similarity2DFromCorrespondences2PointRobust :: estimator
  Affine2DFromCorrespondences3PointRobust :: estimator
  Homography2DFromCorrespondences4PointRobust :: estimator

datatype error =
    AssertionFailed       \<comment> \<open>a failed \<^verbatim>\<open>assert\<close>\<close>
  | UndefinedBehaviour    \<comment> \<open>an iterator moved past the end, an index out of range\<close>
  | CvException           \<comment> \<open>an exception thrown by an OpenCV check\<close>

text \<open>
  The loop shared by the four functions (lines 134-145, 172-183, 210-221, 248-259):
  \<open>prev\<close> is \<^verbatim>\<open>*prev_image_iter\<close>, the list holds the images from \<^verbatim>\<open>image_iter\<close>
  on, \<open>k\<close> is the constant of the test \<^verbatim>\<open>xs2[0].cols() >= k\<close>, and \<open>Es\<close> is the
  output vector, to which \<^verbatim>\<open>push_back\<close> appends.
\<close>

fun relative_loop ::
  "nat \<Rightarrow> (Mat \<Rightarrow> Mat \<Rightarrow> Mat3) \<Rightarrow> Matches \<Rightarrow> ImageID \<Rightarrow> ImageID list \<Rightarrow>
   Matx33d list \<Rightarrow> Matx33d list" where
  "relative_loop k est matches prev [] Es = Es"
| "relative_loop k est matches prev (img # rest) Es =
     (let xs2 = TwoViewPointMatchMatrices matches prev img in
      relative_loop k est matches img rest
        (if k \<le> length (fst xs2)
         then Es @ [MatToMatx (est (fst xs2) (snd xs2))]
         else Es))"

text \<open>
  Before the loop \<^verbatim>\<open>image_iter\<close> is set to \<^verbatim>\<open>begin()\<close> and incremented once; on an
  empty set of images that increments the end iterator.
\<close>

definition relative_matrices ::
  "nat \<Rightarrow> (Mat \<Rightarrow> Mat \<Rightarrow> Mat3) \<Rightarrow> Matches \<Rightarrow> Matx33d list \<Rightarrow> error + Matx33d list" where
  "relative_matrices k est matches Es =
     (case sorted_list_of_set (get_images matches) of
        [] \<Rightarrow> Inl UndefinedBehaviour
      | first # rest \<Rightarrow> Inr (relative_loop k est matches first rest Es))"

definition ComputeRelativeEuclideanMatrices ::
  "Estimators \<Rightarrow> Matches \<Rightarrow> Matx33d list \<Rightarrow> real \<Rightarrow> real \<Rightarrow> error + Matx33d list" where
  "ComputeRelativeEuclideanMatrices ests matches Es outliers_prob max_error_2d =
     relative_matrices 2
       (\<lambda>x1 x2. Euclidean2DFromCorrespondences2PointRobust ests x1 x2
                  max_error_2d outliers_prob)
       matches Es"

definition ComputeRelativeSimilarityMatrices ::
  "Estimators \<Rightarrow> Matches \<Rightarrow> Matx33d list \<Rightarrow> real \<Rightarrow> real \<Rightarrow> error + Matx33d list" where
  "ComputeRelativeSimilarityMatrices ests matches Ss outliers_prob max_error_2d =
     relative_matrices 2
       (\<lambda>x1 x2. Similarity2DFromCorrespondences2PointRobust ests x1 x2
                  max_error_2d outliers_prob)
       matches Ss"

definition ComputeRelativeAffineMatrices ::
  "Estimators \<Rightarrow> Matches \<Rightarrow> Matx33d list \<Rightarrow> real \<Rightarrow> real \<Rightarrow> error + Matx33d list" where
  "ComputeRelativeAffineMatrices ests matches As outliers_prob max_error_2d =
     relative_matrices 3
       (\<lambda>x1 x2. Affine2DFromCorrespondences3PointRobust ests x1 x2
                  max_error_2d outliers_prob)
       matches As"

definition ComputeRelativeHomographyMatrices ::
  "Estimators \<Rightarrow> Matches \<Rightarrow> Matx33d list \<Rightarrow> real \<Rightarrow> real \<Rightarrow> error + Matx33d list" where
  "ComputeRelativeHomographyMatrices ests matches Hs outliers_prob max_error_2d =
     relative_matrices 4
       (\<lambda>x1 x2. Homography2DFromCorrespondences4PointRobust ests x1 x2
                  max_error_2d outliers_prob)
       matches Hs"

text \<open>
  Notions for stating what the chain contains: the consecutive pairs of a list of
  images, whether a pair has at least \<open>k\<close> correspondences (the source's test on
  \<^verbatim>\<open>xs2[0].cols()\<close>), and the matrix pushed for a pair.
\<close>

definition consecutive_pairs :: "'a list \<Rightarrow> ('a \<times> 'a) list" where
  "consecutive_pairs xs = zip xs (tl xs)"

definition enough :: "nat \<Rightarrow> Matches \<Rightarrow> ImageID \<times> ImageID \<Rightarrow> bool" where
  "enough k matches p \<longleftrightarrow>
     k \<le> length (fst (TwoViewPointMatchMatrices matches (fst p) (snd p)))"

definition estimate :: "(Mat \<Rightarrow> Mat \<Rightarrow> Mat3) \<Rightarrow> Matches \<Rightarrow> ImageID \<times> ImageID \<Rightarrow> Matx33d" where
  "estimate est matches p =
     MatToMatx (est (fst (TwoViewPointMatchMatrices matches (fst p) (snd p)))
                    (snd (TwoViewPointMatchMatrices matches (fst p) (snd p))))"

section \<open>The stabilizer\<close>

text \<open>
  What \<^verbatim>\<open>Stabilize\<close> takes from its surroundings: whether \<^verbatim>\<open>assert\<close> is compiled
  out, and for each index whether the image sequence delivers a non-empty image
  (\<^verbatim>\<open>!image.empty()\<close> after \<^verbatim>\<open>source->GetImage(i)\<close>).
\<close>

record Env =
  NDEBUG :: bool
  image_present :: "nat \<Rightarrow> bool"

text \<open>
  A call \<^verbatim>\<open>cv::warpPerspective(image, H, image_stab, image.size())\<close> (line 306): the
  index of the frame, the matrix \<open>H\<close>, which stands where OpenCV's
  \<^verbatim>\<open>warpPerspective(src, dst, M, dsize)\<close> has its destination \<open>dst\<close>, and whether the
  bounds were drawn on the frame first. The transform \<open>M\<close> of the call is the local
  \<^verbatim>\<open>image_stab\<close>, declared on line 305 and still empty.
\<close>

record WarpCall =
  frame_index :: nat
  dst :: Matx_expr
  lines :: bool

text \<open>
  \<^verbatim>\<open>assert(image_files.size() == Hs.size() - 1)\<close> (line 275), compared as 64-bit
  \<^verbatim>\<open>size_t\<close>: for an empty \<open>Hs\<close> the right-hand side wraps to \<open>2^64 - 1\<close>.
\<close>

definition size_assertion :: "nat \<Rightarrow> nat \<Rightarrow> bool" where
  "size_assertion n k \<longleftrightarrow> int n mod 2 ^ 64 = (int k - 1) mod 2 ^ 64"

text \<open>
  The loop of lines 291-318, with \<open>i\<close> the index, \<open>H\<close> the matrix carried from one
  iteration to the next and the list the files from index \<open>i\<close> on. \<^verbatim>\<open>Hs[i - 1]\<close> is
  an unchecked read of libmv's \<^verbatim>\<open>vector\<close>; out of range it is undefined behaviour.
  For a non-empty image the loop calls \<^verbatim>\<open>cv::warpPerspective\<close>. OpenCV requires
  the transform of that call to be a 3x3 matrix of floats or doubles and throws
  otherwise; the transform passed is the empty \<^verbatim>\<open>image_stab\<close>, so the call throws and
  the run ends there. Lines 308-315, which name and write the stabilized image, are not
  reached. The result is the list of calls of \<^verbatim>\<open>cv::warpPerspective\<close> made and, when
  the run stops early, the reason.
\<close>

fun stabilize_loop ::
  "Env \<Rightarrow> bool \<Rightarrow> Matx33d list \<Rightarrow> nat \<Rightarrow> Matx_expr \<Rightarrow> string list \<Rightarrow>
   WarpCall list \<times> error option" where
  "stabilize_loop env draw_lines Hs i H [] = ([], None)"
| "stabilize_loop env draw_lines Hs i H (f # fs) =
     (if 0 < i \<and> length Hs \<le> i - 1 then ([], Some UndefinedBehaviour)
      else
        let H' = (if 0 < i then Mul (Inv (Matx (Hs ! (i - 1)))) H else H) in
        if image_present env i
        then ([\<lparr>frame_index = i, dst = H', lines = draw_lines\<rparr>], Some CvException)
        else stabilize_loop env draw_lines Hs (Suc i) H' fs)"

text \<open>
  \<^verbatim>\<open>Stabilize\<close> (lines 272-319): the assertion, unless compiled out; the read of
  \<^verbatim>\<open>image_files[0]\<close>, undefined on an empty vector; then the loop from the identity.
\<close>

definition Stabilize ::
  "Env \<Rightarrow> string list \<Rightarrow> Matx33d list \<Rightarrow> bool \<Rightarrow> WarpCall list \<times> error option" where
  "Stabilize env image_files Hs draw_lines =
     (if \<not> NDEBUG env \<and> \<not> size_assertion (length image_files) (length Hs)
      then ([], Some AssertionFailed)
      else if image_files = [] then ([], Some UndefinedBehaviour)
      else stabilize_loop env draw_lines Hs 0 (Matx eye) image_files)"

text \<open>The values of \<^verbatim>\<open>enum eGEOMETRIC_TRANSFORMATION\<close> (lines 54-59).\<close>

definition EUCLIDEAN :: int where "EUCLIDEAN = 0"
definition SIMILARITY :: int where "SIMILARITY = 1"
definition AFFINE :: int where "AFFINE = 2"
definition HOMOGRAPHY :: int where "HOMOGRAPHY = 3"

text \<open>
  The \<^verbatim>\<open>switch\<close> of \<^verbatim>\<open>main\<close> (lines 344-360): \<open>Hs\<close> starts empty, the function of
  the chosen family fills it with the default \<^verbatim>\<open>outliers_prob = 1e-2\<close> and
  \<^verbatim>\<open>max_error_2d = 1\<close>, and any other value of the flag leaves it empty.
\<close>

definition relative_matrices_of ::
  "Estimators \<Rightarrow> Matches \<Rightarrow> int \<Rightarrow> error + Matx33d list" where
  "relative_matrices_of ests matches FLAGS_transformation =
     (if FLAGS_transformation = EUCLIDEAN
        then ComputeRelativeEuclideanMatrices ests matches [] (1 / 100) 1
      else if FLAGS_transformation = SIMILARITY
        then ComputeRelativeSimilarityMatrices ests matches [] (1 / 100) 1
      else if FLAGS_transformation = AFFINE
        then ComputeRelativeAffineMatrices ests matches [] (1 / 100) 1
      else if FLAGS_transformation = HOMOGRAPHY
        then ComputeRelativeHomographyMatrices ests matches [] (1 / 100) 1
      else Inr [])"

text \<open>
  \<^verbatim>\<open>main\<close> (lines 321-369): the file names of the command line are sorted with
  \<^verbatim>\<open>std::sort\<close> (the order of \<^verbatim>\<open>std::string\<close>: lexicographic on the bytes), the
  matches are those imported from the matches file, and the chain computed from the
  matches is handed to \<^verbatim>\<open>Stabilize\<close> with the sorted names.
\<close>

definition main ::
  "Env \<Rightarrow> Estimators \<Rightarrow> string list \<Rightarrow> Matches \<Rightarrow> int \<Rightarrow> bool \<Rightarrow>
   WarpCall list \<times> error option" where
  "main env ests args matches FLAGS_transformation FLAGS_draw_lines =
     (let files = sort args in
      case relative_matrices_of ests matches FLAGS_transformation of
        Inl e \<Rightarrow> ([], Some e)
      | Inr Hs \<Rightarrow> Stabilize env files Hs FLAGS_draw_lines)"

text \<open>
  The recurrence of the specification for the cumulative transform of frame \<open>i\<close>:
  the identity for frame 0, and the inverse of transform \<open>i - 1\<close> times the cumulative
  transform of frame \<open>i - 1\<close> after it.
\<close>

primrec cumulative_spec :: "Matx33d list \<Rightarrow> nat \<Rightarrow> Matx_expr" where
  "cumulative_spec T 0 = Matx eye"
| "cumulative_spec T (Suc i) = Mul (Inv (Matx (T ! i))) (cumulative_spec T i)"

section \<open>HomogeneousToEuclidean\<close>

text \<open>
  An OpenCV matrix header with one channel: \<^verbatim>\<open>rows\<close>, \<^verbatim>\<open>cols\<close>, the depth of the
  elements, \<^verbatim>\<open>step\<close>, which OpenCV keeps in bytes (the distance between the starts of
  two consecutive rows), and the buffer from the data pointer to the end of the
  allocation, as a list of elements. Element values are idealised as reals.
\<close>

datatype Depth = CV_8U | CV_8S | CV_16U | CV_16S | CV_32S | CV_32F | CV_64F

fun elemSize :: "Depth \<Rightarrow> nat" where
  "elemSize CV_8U = 1"
| "elemSize CV_8S = 1"
| "elemSize CV_16U = 2"
| "elemSize CV_16S = 2"
| "elemSize CV_32S = 4"
| "elemSize CV_32F = 4"
| "elemSize CV_64F = 8"

record cvMat =
  rows :: nat
  cols :: nat
  depth :: Depth
  step :: nat
  data :: "real list"

text \<open>The template parameter \<open>T\<close> of \<^verbatim>\<open>HomogeneousToEuclidean_\<close>.\<close>

datatype elem = Float | Double

fun sizeof :: "elem \<Rightarrow> nat" where
  "sizeof Float = 4"
| "sizeof Double = 8"

fun depth_of :: "elem \<Rightarrow> Depth" where
  "depth_of Float = CV_32F"
| "depth_of Double = CV_64F"

text \<open>
  \<^verbatim>\<open>rowRange(a, b)\<close> and \<^verbatim>\<open>row(r)\<close> make a header on the same buffer: the data pointer
  moves to the first row of the range and \<^verbatim>\<open>step\<close> stays that of the whole matrix.
\<close>

definition rowRange :: "cvMat \<Rightarrow> nat \<Rightarrow> nat \<Rightarrow> cvMat" where
  "rowRange m a b =
     m\<lparr>rows := b - a, data := drop (a * (step m div elemSize (depth m))) (data m)\<rparr>"

definition row :: "cvMat \<Rightarrow> nat \<Rightarrow> cvMat" where
  "row m r = rowRange m r (r + 1)"

text \<open>
  Binding a \<^verbatim>\<open>Mat\<close> to a \<^verbatim>\<open>Mat_<T>\<close>: the same header when the depth is that of
  \<open>T\<close>, otherwise a converted copy, which is continuous (its step is
  \<open>cols * sizeof T\<close>).
\<close>

definition as_Mat_T :: "elem \<Rightarrow> cvMat \<Rightarrow> cvMat" where
  "as_Mat_T T m =
     (if depth m = depth_of T then m
      else \<lparr>rows = rows m, cols = cols m, depth = depth_of T, step = cols m * sizeof T,
            data = concat (map (\<lambda>r. take (cols m)
                                       (drop (r * (step m div elemSize (depth m))) (data m)))
                               [0..<rows m])\<rparr>)"

text \<open>
  The inner loop (lines 53-58) for column \<open>c\<close>, with \<open>n\<close> iterations left. \<open>Xo\<close> and
  \<open>xo\<close> are the offsets of \<^verbatim>\<open>X_col_ptr\<close> and \<^verbatim>\<open>x_col_ptr\<close> from their buffers, counted
  in elements, since both are pointers to \<open>T\<close>; each iteration adds \<^verbatim>\<open>X_rows.step\<close> and
  \<^verbatim>\<open>_x.step\<close> to them. An access outside a buffer is undefined behaviour. The input and
  the output are taken not to overlap. Where the source divides by a zero \<^verbatim>\<open>*h_ptr\<close>
  the IEEE result is an infinity or a NaN; the quotient of the reals used here is not
  meaningful there.
\<close>

fun column_loop ::
  "nat \<Rightarrow> nat \<Rightarrow> nat \<Rightarrow> nat \<Rightarrow> nat \<Rightarrow> real list \<Rightarrow> nat \<Rightarrow> real list \<Rightarrow> real list \<Rightarrow>
   error + real list" where
  "column_loop 0 Xo xo Xstep xstep hD c XD xD = Inr xD"
| "column_loop (Suc n) Xo xo Xstep xstep hD c XD xD =
     (if Xo < length XD \<and> c < length hD \<and> xo < length xD
      then column_loop n (Xo + Xstep) (xo + xstep) Xstep xstep hD c XD
             (xD[xo := XD ! Xo / hD ! c])
      else Inl UndefinedBehaviour)"

text \<open>
  The outer loop (lines 51-59) over the columns of \<open>h\<close>, \<open>n\<close> columns left from column
  \<open>c\<close>. The inner loop runs until \<^verbatim>\<open>x_col_ptr\<close> reaches \<^verbatim>\<open>x_col_ptr + d * _x.step\<close>:
  \<open>d\<close> iterations, none when the step is 0.
\<close>

fun points_loop ::
  "nat \<Rightarrow> nat \<Rightarrow> nat \<Rightarrow> nat \<Rightarrow> nat \<Rightarrow> real list \<Rightarrow> real list \<Rightarrow> real list \<Rightarrow>
   error + real list" where
  "points_loop 0 c d Xstep xstep hD XD xD = Inr xD"
| "points_loop (Suc n) c d Xstep xstep hD XD xD =
     (case column_loop (if xstep = 0 then 0 else d) c c Xstep xstep hD c XD xD of
        Inl e \<Rightarrow> Inl e
      | Inr xD' \<Rightarrow> points_loop n (Suc c) d Xstep xstep hD XD xD')"

text \<open>
  \<^verbatim>\<open>HomogeneousToEuclidean_<T>\<close> (projection.cpp, lines 40-60), here
  \<open>HomogeneousToEuclidean_T\<close> with \<open>T\<close> as its first argument. With no row,
  \<^verbatim>\<open>rowRange(0, -1)\<close> fails OpenCV's range check. The output \<open>x\<close> is used as the caller
  passed it (the source neither allocates it nor looks at its depth), its buffer read
  through a pointer to \<open>T\<close>.
\<close>

definition HomogeneousToEuclidean_T :: "elem \<Rightarrow> cvMat \<Rightarrow> cvMat \<Rightarrow> error + cvMat" where
  "HomogeneousToEuclidean_T T X x =
     (if rows X = 0 then Inl CvException
      else
        let d = rows X - 1;
            X_rows = as_Mat_T T (rowRange X 0 d);
            h = as_Mat_T T (row X d)
        in (case points_loop (cols h) 0 d (step X_rows) (step x)
                   (data h) (data X_rows) (data x) of
              Inl e \<Rightarrow> Inl e
            | Inr xD \<Rightarrow> Inr (x\<lparr>data := xD\<rparr>)))"

text \<open>\<^verbatim>\<open>HomogeneousToEuclidean\<close> (lines 62-75): the choice of \<open>T\<close> by the depth of \<open>X\<close>.\<close>

definition HomogeneousToEuclidean :: "cvMat \<Rightarrow> cvMat \<Rightarrow> error + cvMat" where
  "HomogeneousToEuclidean X x =
     (if depth X = CV_32F then HomogeneousToEuclidean_T Float X x
      else HomogeneousToEuclidean_T Double X x)"

section \<open>Example inputs\<close>

text \<open>
  Inputs for the concrete runs below. \<open>example_env\<close> has an image for every index,
  \<open>example_env_empty\<close> an empty image for every index (files that cannot be read).
  The estimator stands for the absent robust estimators: it returns the translation
  that carries the first point of \<open>x1\<close> to the first point of \<open>x2\<close>; \<open>example_fit\<close> is
  the estimator with the default \<^verbatim>\<open>max_error_2d\<close> and \<^verbatim>\<open>outliers_prob\<close>. The match
  graph has the three images 0, 1 and 2, one correspondence between images 0 and 1 and
  two between images 1 and 2.
\<close>

definition example_env :: "bool \<Rightarrow> Env" where
  "example_env ndebug = \<lparr>NDEBUG = ndebug, image_present = (\<lambda>i. True)\<rparr>"

definition example_env_empty :: "bool \<Rightarrow> Env" where
  "example_env_empty ndebug = \<lparr>NDEBUG = ndebug, image_present = (\<lambda>i. False)\<rparr>"

definition translation :: "real \<Rightarrow> real \<Rightarrow> Mat3" where
  "translation dx dy =
     (\<lambda>j i. if j = i then 1 else if i = 2 then (if j = 0 then dx else dy) else 0)"

definition example_estimator :: estimator where
  "example_estimator x1 x2 max_error_2d outliers_prob =
     (case (x1, x2) of
        ((a, b) # _, (c, d) # _) \<Rightarrow> translation (c - a) (d - b)
      | _ \<Rightarrow> translation 0 0)"

definition example_fit :: "Mat \<Rightarrow> Mat \<Rightarrow> Mat3" where
  "example_fit x1 x2 = example_estimator x1 x2 1 (1 / 100)"

definition example_estimators :: Estimators where
  "example_estimators =
     \<lparr>Euclidean2DFromCorrespondences2PointRobust = example_estimator,
      Similarity2DFromCorrespondences2PointRobust = example_estimator,
      Affine2DFromCorrespondences3PointRobust = example_estimator,
      Homography2DFromCorrespondences4PointRobust = example_estimator\<rparr>"

definition example_matches :: Matches where
  "example_matches =
     \<lparr>get_images = {0, 1, 2},
      TwoViewPointMatchMatrices =
        (\<lambda>a b. if a = 0 \<and> b = 1 then ([(0, 0)], [(1, 0)])
               else if a = 1 \<and> b = 2 then ([(0, 0), (1, 0)], [(0, 5), (1, 5)])
               else ([], []))\<rparr>"

section \<open>Properties of the string operations\<close>

lemma rfind_None_iff: "rfind s c = None \<longleftrightarrow> c \<notin> set s"
  by (induction s) (auto split: option.splits)

lemma rfind_Some_split:
  "rfind s c = Some k \<Longrightarrow> k < length s \<and> s ! k = c \<and> c \<notin> set (drop (Suc k) s)"
proof (induction s arbitrary: k)
  case Nil
  then show ?case by simp
next
  case (Cons x xs)
  show ?case
  proof (cases "rfind xs c")
    case None
    with Cons.prems have "x = c" "k = 0"
      by (auto split: if_splits)
    moreover from None have "c \<notin> set xs"
      by (simp add: rfind_None_iff)
    ultimately show ?thesis by simp
  next
    case (Some i)
    with Cons.prems have k: "k = Suc i" by simp
    from Cons.IH [OF Some] show ?thesis
      by (simp add: k)
  qed
qed

lemma rfind_last_iff:
  "s \<noteq> [] \<Longrightarrow> rfind s c = Some (length s - 1) \<longleftrightarrow> last s = c"
proof (induction s)
  case Nil
  then show ?case by simp
next
  case (Cons x xs)
  show ?case
  proof (cases "xs = []")
    case True
    then show ?thesis by auto
  next
    case False
    with Cons.IH have ih: "rfind xs c = Some (length xs - 1) \<longleftrightarrow> last xs = c"
      by simp
    from False have len: "length xs - 1 < length xs" "Suc (length xs - 1) = length xs"
      by (cases xs; simp)+
    show ?thesis
    proof (cases "rfind xs c")
      case None
      then have "c \<notin> set xs" by (simp add: rfind_None_iff)
      with False have "last xs \<noteq> c" using last_in_set by metis
      with None False show ?thesis by (auto split: if_splits)
    next
      case (Some i)
      with ih False len show ?thesis by auto
    qed
  qed
qed

lemma rfind_Some_decomp:
  assumes "rfind s c = Some k"
  shows "\<exists>pre suf. s = pre @ c # suf \<and> c \<notin> set suf \<and> drop (Suc k) s = suf"
proof -
  from rfind_Some_split [OF assms]
  have kl: "k < length s" and sk: "s ! k = c" and rest: "c \<notin> set (drop (Suc k) s)"
    by simp_all
  from kl sk have "s = take k s @ c # drop (Suc k) s"
    using id_take_nth_drop by metis
  with rest show ?thesis by blast
qed

lemma rfind_mem: "c \<in> set s \<Longrightarrow> \<exists>k. rfind s c = Some k"
  using rfind_None_iff [of s c] by (cases "rfind s c") auto

lemma ReplaceFolder_nonempty:
  assumes "nf \<noteq> []"
  shows "ReplaceFolder w s nf =
     (if last nf = separator w then nf else nf @ [separator w]) @
     (case (if w then (case rfind s (CHR 0x5C) of None \<Rightarrow> rfind s (CHR ''/'') | Some k \<Rightarrow> Some k)
            else rfind s (CHR ''/'')) of
        Some k \<Rightarrow> drop (Suc k) s
      | None \<Rightarrow> s)"
  using assms rfind_last_iff [OF assms, of "separator w"]
  by (cases w) (simp_all add: ReplaceFolder_def Let_def split: option.splits)

lemma ReplaceFolder_cut:
  assumes "nf \<noteq> []" and "rfind s (separator w) = Some k"
  shows "ReplaceFolder w s nf =
     (if last nf = separator w then nf else nf @ [separator w]) @ drop (Suc k) s"
  using assms(2) unfolding ReplaceFolder_nonempty [OF assms(1)]
  by (cases w) (simp_all add: separator_def)

lemma ReplaceFolder_fallback:
  assumes "nf \<noteq> []" and "rfind s (CHR 0x5C) = None" and "rfind s (CHR ''/'') = Some k"
  shows "ReplaceFolder True s nf =
     (if last nf = separator True then nf else nf @ [separator True]) @ drop (Suc k) s"
  using assms(2,3) unfolding ReplaceFolder_nonempty [OF assms(1)]
  by simp

lemma ReplaceFolder_whole:
  assumes "nf \<noteq> []" and "rfind s (separator w) = None" and "rfind s (CHR ''/'') = None"
  shows "ReplaceFolder w s nf =
     (if last nf = separator w then nf else nf @ [separator w]) @ s"
  using assms(2,3) unfolding ReplaceFolder_nonempty [OF assms(1)]
  by (cases w) (simp_all add: separator_def)

text \<open>
  C10, as stated, fails in the WIN32 build: for the path "a/b" and the new folder "d/"
  the result is "d/", a backslash and "b". It is neither the folder with a backslash
  appended followed by all of the path, which has no backslash, nor, if "/" counts as
  a separator too, the folder as it is, already ending in a separator, followed by
  "b".
\<close>

theorem ReplaceFolder_counterexample:
  "ReplaceFolder True ''a/b'' ''d/'' = [CHR ''d'', CHR ''/'', CHR 0x5C, CHR ''b''] \<and>
   ReplaceFolder True ''a/b'' ''d/'' \<noteq> [CHR ''d'', CHR ''/'', CHR 0x5C] @ ''a/b'' \<and>
   ReplaceFolder True ''a/b'' ''d/'' \<noteq> ''d/'' @ ''b''"
  by (simp add: ReplaceFolder_def separator_def Let_def)

text \<open>
  C10, amended. With an empty new folder the path is returned unchanged. With a
  non-empty new folder the result starts with the new folder, the separator of the
  build ("/", or the backslash under WIN32) appended unless the folder already ends in
  it. It is
  followed by what follows the last separator of the path; when the path has no
  separator, by what follows its last "/" in the WIN32 build, and by the whole path
  when it has no "/" either.
\<close>

theorem ReplaceFolder_builds:
  "ReplaceFolder w s [] = s \<and>
   (nf \<noteq> [] \<longrightarrow>
      (separator w \<in> set s \<longrightarrow>
         (\<exists>pre suf. s = pre @ separator w # suf \<and> separator w \<notin> set suf \<and>
            ReplaceFolder w s nf =
              (if last nf = separator w then nf else nf @ [separator w]) @ suf)) \<and>
      (w \<and> separator w \<notin> set s \<and> CHR ''/'' \<in> set s \<longrightarrow>
         (\<exists>pre suf. s = pre @ CHR ''/'' # suf \<and> CHR ''/'' \<notin> set suf \<and>
            ReplaceFolder w s nf =
              (if last nf = separator w then nf else nf @ [separator w]) @ suf)) \<and>
      (separator w \<notin> set s \<and> CHR ''/'' \<notin> set s \<longrightarrow>
         ReplaceFolder w s nf =
           (if last nf = separator w then nf else nf @ [separator w]) @ s))"
proof (intro conjI impI)
  show "ReplaceFolder w s [] = s"
    by (simp add: ReplaceFolder_def)
next
  assume nf: "nf \<noteq> []" and "separator w \<in> set s"
  then obtain k where k: "rfind s (separator w) = Some k"
    using rfind_mem by blast
  from rfind_Some_decomp [OF k] obtain pre suf
    where d: "s = pre @ separator w # suf" "separator w \<notin> set suf" "drop (Suc k) s = suf"
    by blast
  have r: "ReplaceFolder w s nf =
      (if last nf = separator w then nf else nf @ [separator w]) @ suf"
    unfolding ReplaceFolder_cut [OF nf k] d(3) ..
  show "\<exists>pre suf. s = pre @ separator w # suf \<and> separator w \<notin> set suf \<and>
      ReplaceFolder w s nf = (if last nf = separator w then nf else nf @ [separator w]) @ suf"
  proof (intro exI conjI)
    show "s = pre @ separator w # suf" by (rule d(1))
    show "separator w \<notin> set suf" by (rule d(2))
    show "ReplaceFolder w s nf =
      (if last nf = separator w then nf else nf @ [separator w]) @ suf" by (rule r)
  qed
next
  assume nf: "nf \<noteq> []" and a: "w \<and> separator w \<notin> set s \<and> CHR ''/'' \<in> set s"
  then obtain k where k: "rfind s (CHR ''/'') = Some k"
    using rfind_mem by blast
  from a have w: "w" by simp
  with a have n: "rfind s (CHR 0x5C) = None"
    by (simp add: rfind_None_iff separator_def)
  from rfind_Some_decomp [OF k] obtain pre suf
    where d: "s = pre @ CHR ''/'' # suf" "CHR ''/'' \<notin> set suf" "drop (Suc k) s = suf"
    by blast
  have r: "ReplaceFolder w s nf =
      (if last nf = separator w then nf else nf @ [separator w]) @ suf"
    using ReplaceFolder_fallback [OF nf n k] w d(3) by simp
  show "\<exists>pre suf. s = pre @ CHR ''/'' # suf \<and> CHR ''/'' \<notin> set suf \<and>
      ReplaceFolder w s nf = (if last nf = separator w then nf else nf @ [separator w]) @ suf"
  proof (intro exI conjI)
    show "s = pre @ CHR ''/'' # suf" by (rule d(1))
    show "CHR ''/'' \<notin> set suf" by (rule d(2))
    show "ReplaceFolder w s nf =
      (if last nf = separator w then nf else nf @ [separator w]) @ suf" by (rule r)
  qed
next
  assume nf: "nf \<noteq> []" and a: "separator w \<notin> set s \<and> CHR ''/'' \<notin> set s"
  then have "rfind s (separator w) = None" "rfind s (CHR ''/'') = None"
    by (simp_all add: rfind_None_iff)
  then show "ReplaceFolder w s nf =
      (if last nf = separator w then nf else nf @ [separator w]) @ s"
    by (rule ReplaceFolder_whole [OF nf])
qed

theorem ReplaceFolder_builds_witness:
  "ReplaceFolder False ''seq/a/img01.png'' [] = ''seq/a/img01.png'' \<and>
   ''out'' \<noteq> [] \<and> separator False \<in> set ''seq/a/img01.png'' \<and>
   (\<exists>pre suf. ''seq/a/img01.png'' = pre @ separator False # suf \<and>
      separator False \<notin> set suf \<and>
      ReplaceFolder False ''seq/a/img01.png'' ''out'' =
        (if last ''out'' = separator False then ''out'' else ''out'' @ [separator False]) @ suf) \<and>
   ReplaceFolder False ''seq/a/img01.png'' ''out'' = ''out/img01.png'' \<and>
   ''d/'' \<noteq> [] \<and> separator True \<notin> set ''a/b'' \<and> CHR ''/'' \<in> set ''a/b'' \<and>
   (\<exists>pre suf. ''a/b'' = pre @ CHR ''/'' # suf \<and> CHR ''/'' \<notin> set suf \<and>
      ReplaceFolder True ''a/b'' ''d/'' =
        (if last ''d/'' = separator True then ''d/'' else ''d/'' @ [separator True]) @ suf) \<and>
   ''out/'' \<noteq> [] \<and> separator False \<notin> set ''img01.png'' \<and> CHR ''/'' \<notin> set ''img01.png'' \<and>
   ReplaceFolder False ''img01.png'' ''out/'' =
     (if last ''out/'' = separator False then ''out/'' else ''out/'' @ [separator False])
       @ ''img01.png'' \<and>
   ReplaceFolder False ''img01.png'' ''out/'' = ''out/img01.png''"
proof -
  note t1 = ReplaceFolder_builds [of False "''seq/a/img01.png''" "''out''"]
  note t2 = ReplaceFolder_builds [of True "''a/b''" "''d/''"]
  note t3 = ReplaceFolder_builds [of False "''img01.png''" "''out/''"]
  have a1: "''out'' \<noteq> []" and a2: "''d/'' \<noteq> []" and a3: "''out/'' \<noteq> []"
    by simp_all
  have b1: "separator False \<in> set ''seq/a/img01.png''"
    by (simp add: separator_def)
  have b2: "True \<and> separator True \<notin> set ''a/b'' \<and> CHR ''/'' \<in> set ''a/b''"
    by (simp add: separator_def)
  have b3: "separator False \<notin> set ''img01.png'' \<and> CHR ''/'' \<notin> set ''img01.png''"
    by (simp add: separator_def)
  note c0 = t1 [THEN conjunct1]
  note c1 = t1 [THEN conjunct2, THEN mp, OF a1, THEN conjunct1, THEN mp, OF b1]
  note c2 = t2 [THEN conjunct2, THEN mp, OF a2, THEN conjunct2, THEN conjunct1, THEN mp, OF b2]
  note c3 = t3 [THEN conjunct2, THEN mp, OF a3, THEN conjunct2, THEN conjunct2, THEN mp, OF b3]
  have e1: "ReplaceFolder False ''seq/a/img01.png'' ''out'' = ''out/img01.png''"
    and e3: "ReplaceFolder False ''img01.png'' ''out/'' = ''out/img01.png''"
    by (simp_all add: ReplaceFolder_def separator_def Let_def)
  from b2 have b2': "separator True \<notin> set ''a/b''" "CHR ''/'' \<in> set ''a/b''"
    by (rule conjunct2 [THEN conjunct1], rule conjunct2 [THEN conjunct2])
  from b3 have b3': "separator False \<notin> set ''img01.png''" "CHR ''/'' \<notin> set ''img01.png''"
    by (rule conjunct1, rule conjunct2)
  show ?thesis
    by (intro conjI) (rule c0 a1 b1 c1 e1 a2 b2' c2 a3 b3' c3 e3)+
qed

section \<open>Properties of the chain of relative matrices\<close>

lemma relative_loop_eq:
  "relative_loop k est matches prev rest Es =
     Es @ map (estimate est matches) (filter (enough k matches) (zip (prev # rest) rest))"
  by (induction rest arbitrary: prev Es) (simp_all add: Let_def estimate_def enough_def)

lemma relative_matrices_eq:
  assumes "sorted_list_of_set (get_images matches) = ids" and "ids \<noteq> []"
  shows "relative_matrices k est matches Es =
     Inr (Es @ map (estimate est matches)
                   (filter (enough k matches) (consecutive_pairs ids)))"
proof -
  from assms obtain first rest where ids: "ids = first # rest"
    by (cases ids) auto
  with assms show ?thesis
    by (simp add: relative_matrices_def relative_loop_eq consecutive_pairs_def)
qed

lemma ids_example: "sorted_list_of_set (get_images example_matches) = [0, 1, 2]"
  by (simp add: example_matches_def)

text \<open>
  C5. With at least one image in the match graph, each of the four chain functions
  returns normally: it appends to the output vector one matrix for every consecutive
  pair of images that has at least the minimal number of correspondences of its model
  and nothing for the other pairs, so the number of matrices appended is the number
  of consecutive pairs with enough correspondences.
\<close>

theorem chain_skips_short_pairs:
  assumes "sorted_list_of_set (get_images matches) = ids" and "ids \<noteq> []"
  shows "(\<exists>new. ComputeRelativeEuclideanMatrices ests matches Es outliers_prob max_error_2d
                  = Inr (Es @ new) \<and>
               length new = length (filter (enough 2 matches) (consecutive_pairs ids))) \<and>
         (\<exists>new. ComputeRelativeSimilarityMatrices ests matches Es outliers_prob max_error_2d
                  = Inr (Es @ new) \<and>
               length new = length (filter (enough 2 matches) (consecutive_pairs ids))) \<and>
         (\<exists>new. ComputeRelativeAffineMatrices ests matches Es outliers_prob max_error_2d
                  = Inr (Es @ new) \<and>
               length new = length (filter (enough 3 matches) (consecutive_pairs ids))) \<and>
         (\<exists>new. ComputeRelativeHomographyMatrices ests matches Es outliers_prob max_error_2d
                  = Inr (Es @ new) \<and>
               length new = length (filter (enough 4 matches) (consecutive_pairs ids)))"
  unfolding ComputeRelativeEuclideanMatrices_def ComputeRelativeSimilarityMatrices_def
    ComputeRelativeAffineMatrices_def ComputeRelativeHomographyMatrices_def
    relative_matrices_eq [OF assms]
  by simp

theorem chain_skips_short_pairs_witness:
  "sorted_list_of_set (get_images example_matches) = [0, 1, 2] \<and> [0, 1, 2 :: int] \<noteq> [] \<and>
   \<not> enough 2 example_matches (0, 1) \<and> enough 2 example_matches (1, 2) \<and>
   (\<exists>new. ComputeRelativeEuclideanMatrices example_estimators example_matches [eye] (1 / 100) 1
            = Inr ([eye] @ new) \<and> length new = 1) \<and>
   (\<exists>new. ComputeRelativeHomographyMatrices example_estimators example_matches [eye] (1 / 100) 1
            = Inr ([eye] @ new) \<and> length new = 0)"
  using chain_skips_short_pairs [OF ids_example, of example_estimators "[eye]" "1 / 100" 1]
  by (simp add: ids_example consecutive_pairs_def enough_def example_matches_def)

text \<open>
  C6. The chain of each family is made of the estimates of exactly those consecutive
  pairs whose number of correspondences is at least 2 for Euclidean, 2 for Similarity,
  3 for Affine and 4 for Homography, in the order of the pairs.
\<close>

theorem minimal_cardinalities:
  assumes "sorted_list_of_set (get_images matches) = ids" and "ids \<noteq> []"
  shows "ComputeRelativeEuclideanMatrices ests matches [] outliers_prob max_error_2d =
           Inr (map (estimate (\<lambda>x1 x2. Euclidean2DFromCorrespondences2PointRobust ests x1 x2
                                          max_error_2d outliers_prob) matches)
                    (filter (enough 2 matches) (consecutive_pairs ids))) \<and>
         ComputeRelativeSimilarityMatrices ests matches [] outliers_prob max_error_2d =
           Inr (map (estimate (\<lambda>x1 x2. Similarity2DFromCorrespondences2PointRobust ests x1 x2
                                          max_error_2d outliers_prob) matches)
                    (filter (enough 2 matches) (consecutive_pairs ids))) \<and>
         ComputeRelativeAffineMatrices ests matches [] outliers_prob max_error_2d =
           Inr (map (estimate (\<lambda>x1 x2. Affine2DFromCorrespondences3PointRobust ests x1 x2
                                          max_error_2d outliers_prob) matches)
                    (filter (enough 3 matches) (consecutive_pairs ids))) \<and>
         ComputeRelativeHomographyMatrices ests matches [] outliers_prob max_error_2d =
           Inr (map (estimate (\<lambda>x1 x2. Homography2DFromCorrespondences4PointRobust ests x1 x2
                                          max_error_2d outliers_prob) matches)
                    (filter (enough 4 matches) (consecutive_pairs ids)))"
  unfolding ComputeRelativeEuclideanMatrices_def ComputeRelativeSimilarityMatrices_def
    ComputeRelativeAffineMatrices_def ComputeRelativeHomographyMatrices_def
    relative_matrices_eq [OF assms]
  by simp

theorem minimal_cardinalities_witness:
  "sorted_list_of_set (get_images example_matches) = [0, 1, 2] \<and> [0, 1, 2 :: int] \<noteq> [] \<and>
   ComputeRelativeEuclideanMatrices example_estimators example_matches [] (1 / 100) 1 =
     Inr [Matx33d 1 0 0  0 1 5  0 0 1] \<and>
   ComputeRelativeSimilarityMatrices example_estimators example_matches [] (1 / 100) 1 =
     Inr [Matx33d 1 0 0  0 1 5  0 0 1] \<and>
   ComputeRelativeAffineMatrices example_estimators example_matches [] (1 / 100) 1 = Inr [] \<and>
   ComputeRelativeHomographyMatrices example_estimators example_matches [] (1 / 100) 1 = Inr []"
  using minimal_cardinalities [OF ids_example, of example_estimators "1 / 100" 1]
  by (simp add: ids_example consecutive_pairs_def enough_def estimate_def example_matches_def
      example_estimators_def example_estimator_def translation_def MatToMatx_def)

text \<open>
  C8, as stated, fails: with three images, of which the first two share a single
  correspondence, the first matrix of the Euclidean chain is the one estimated for the
  second and third image, not for the first and second.
\<close>

theorem chain_order_counterexample:
  "sorted_list_of_set (get_images example_matches) = [0, 1, 2] \<and>
   relative_matrices_of example_estimators example_matches EUCLIDEAN =
     Inr [estimate example_fit example_matches (1, 2)] \<and>
   estimate example_fit example_matches (1, 2) \<noteq>
   estimate example_fit example_matches (0, 1)"
  by (simp add: relative_matrices_of_def EUCLIDEAN_def ComputeRelativeEuclideanMatrices_def
      relative_matrices_def Let_def estimate_def example_matches_def example_fit_def
      example_estimators_def example_estimator_def translation_def MatToMatx_def)

text \<open>
  C8, amended. The chain functions iterate over the consecutive pairs of image
  identifiers of the match graph in ascending order of the identifiers; when every
  consecutive pair has at least the minimal number of correspondences, matrix \<open>i\<close>
  of the chain is the one estimated for the identifiers \<open>i\<close> and \<open>i + 1\<close> of that
  order. The file names, which \<^verbatim>\<open>main\<close> sorts, go to \<^verbatim>\<open>Stabilize\<close> only: the
  chain is computed from the match graph alone. (\<open>relative_matrices k est\<close> is the
  body of each of the four chain functions, with its constant and its estimator.)
\<close>

theorem chain_order:
  assumes "sorted_list_of_set (get_images matches) = ids" and "ids \<noteq> []"
    and "\<forall>p\<in>set (consecutive_pairs ids). enough k matches p"
  shows "sorted ids \<and> distinct ids \<and>
         (\<exists>chain. relative_matrices k est matches [] = Inr chain \<and>
                   length chain = length ids - 1 \<and>
                   (\<forall>i. i + 1 < length ids \<longrightarrow>
                        chain ! i = estimate est matches (ids ! i, ids ! (i + 1)))) \<and>
         main env ests args matches t dl =
           (case relative_matrices_of ests matches t of
              Inl e \<Rightarrow> ([], Some e)
            | Inr Hs \<Rightarrow> Stabilize env (sort args) Hs dl)"
proof (intro conjI)
  from assms(1) show "sorted ids" and "distinct ids"
    by auto
  have all: "filter (enough k matches) (consecutive_pairs ids) = consecutive_pairs ids"
    using assms(3) by simp
  have chain: "relative_matrices k est matches [] =
      Inr (map (estimate est matches) (consecutive_pairs ids))"
    by (simp add: relative_matrices_eq [OF assms(1,2)] all)
  have len: "length (consecutive_pairs ids) = length ids - 1"
    by (simp add: consecutive_pairs_def)
  have nth: "map (estimate est matches) (consecutive_pairs ids) ! i =
      estimate est matches (ids ! i, ids ! (i + 1))" if "i + 1 < length ids" for i
    using that by (simp add: consecutive_pairs_def nth_tl)
  from chain len nth
  show "\<exists>chain. relative_matrices k est matches [] = Inr chain \<and>
                   length chain = length ids - 1 \<and>
                   (\<forall>i. i + 1 < length ids \<longrightarrow>
                        chain ! i = estimate est matches (ids ! i, ids ! (i + 1)))"
    by simp
  show "main env ests args matches t dl =
           (case relative_matrices_of ests matches t of
              Inl e \<Rightarrow> ([], Some e)
            | Inr Hs \<Rightarrow> Stabilize env (sort args) Hs dl)"
    by (simp add: main_def)
qed

theorem chain_order_witness:
  "sorted_list_of_set (get_images example_matches) = [0, 1, 2] \<and> [0, 1, 2 :: int] \<noteq> [] \<and>
   consecutive_pairs [0, 1, 2 :: int] = [(0, 1), (1, 2)] \<and>
   enough 1 example_matches (0, 1) \<and> enough 1 example_matches (1, 2) \<and>
   (\<exists>chain. relative_matrices 1 example_fit example_matches [] = Inr chain \<and>
             length chain = 2 \<and>
             chain ! 1 = estimate example_fit example_matches (1, 2))"
proof -
  have cp: "consecutive_pairs [0, 1, 2 :: int] = [(0, 1), (1, 2)]"
    by (simp add: consecutive_pairs_def)
  have e: "enough 1 example_matches (0, 1)" "enough 1 example_matches (1, 2)"
    by (simp_all add: enough_def example_matches_def)
  have en: "\<forall>p\<in>set (consecutive_pairs [0, 1, 2]). enough 1 example_matches p"
    using e by (simp add: cp)
  have "\<exists>chain. relative_matrices 1 example_fit example_matches [] = Inr chain \<and>
          length chain = length [0, 1, 2 :: int] - 1 \<and>
          (\<forall>i. i + 1 < length [0, 1, 2 :: int] \<longrightarrow>
             chain ! i = estimate example_fit example_matches ([0, 1, 2] ! i, [0, 1, 2] ! (i + 1)))"
    using chain_order [OF ids_example _ en, of example_fit] by simp
  then obtain chain where c: "relative_matrices 1 example_fit example_matches [] = Inr chain"
    "length chain = length [0, 1, 2 :: int] - 1"
    "\<forall>i. i + 1 < length [0, 1, 2 :: int] \<longrightarrow>
       chain ! i = estimate example_fit example_matches ([0, 1, 2] ! i, [0, 1, 2] ! (i + 1))"
    by blast
  from c(3)
  have "chain ! 1 = estimate example_fit example_matches ([0, 1, 2] ! 1, [0, 1, 2] ! (1 + 1))"
    by (rule allE [where x = 1]) simp
  then have "chain ! 1 = estimate example_fit example_matches (1, 2)" by simp
  with c(1,2) cp e ids_example show ?thesis by simp
qed

section \<open>Properties of the stabilizer\<close>

lemma loop_step_cumulative:
  "H = cumulative_spec Hs (i - 1) \<Longrightarrow>
   (if 0 < i then Mul (Inv (Matx (Hs ! (i - 1)))) H else H) = cumulative_spec Hs i"
  by (cases i) simp_all

lemma stabilize_loop_out_of_range:
  "length Hs < i \<Longrightarrow>
   stabilize_loop env dl Hs i H (f # fs) = ([], Some UndefinedBehaviour)"
  by (cases i) auto

lemma stabilize_loop_in_range:
  assumes "i \<le> length Hs"
    and "H' = (if 0 < i then Mul (Inv (Matx (Hs ! (i - 1)))) H else H)"
  shows "stabilize_loop env dl Hs i H (f # fs) =
     (if image_present env i
      then ([\<lparr>frame_index = i, dst = H', lines = dl\<rparr>], Some CvException)
      else stabilize_loop env dl Hs (Suc i) H' fs)"
proof -
  from assms(1) have "\<not> (0 < i \<and> length Hs \<le> i - 1)"
    by (cases i) auto
  then show ?thesis
    unfolding assms(2) by (simp only: stabilize_loop.simps Let_def if_False)
qed

declare stabilize_loop.simps [simp del]

text \<open>
  What the loop gets right: the matrix it hands to \<^verbatim>\<open>cv::warpPerspective\<close> for frame
  \<open>i\<close> is the cumulative transform of the recurrence. It hands it over as the
  destination of the call, and the call ends the run.
\<close>

lemma stabilize_loop_calls:
  assumes "H = cumulative_spec Hs (i - 1)"
    and "c \<in> set (fst (stabilize_loop env dl Hs i H fs))"
  shows "dst c = cumulative_spec Hs (frame_index c) \<and> i \<le> frame_index c \<and>
         frame_index c < i + length fs \<and> frame_index c \<le> length Hs \<and>
         stabilize_loop env dl Hs i H fs = ([c], Some CvException)"
  using assms
proof (induction fs arbitrary: i H)
  case Nil
  then show ?case by (simp add: stabilize_loop.simps)
next
  case (Cons f fs)
  show ?case
  proof (cases "i \<le> length Hs")
    case False
    then have "length Hs < i" by simp
    from stabilize_loop_out_of_range [OF this] Cons.prems(2) show ?thesis
      by simp
  next
    case True
    note step = stabilize_loop_in_range
      [OF True loop_step_cumulative [OF Cons.prems(1), symmetric], of env dl f fs]
    show ?thesis
    proof (cases "image_present env i")
      case present: True
      with Cons.prems(2) True show ?thesis
        unfolding step by simp
    next
      case False
      with Cons.prems(2)
      have "c \<in> set (fst (stabilize_loop env dl Hs (Suc i) (cumulative_spec Hs i) fs))"
        unfolding step by simp
      then have "dst c = cumulative_spec Hs (frame_index c) \<and> Suc i \<le> frame_index c \<and>
         frame_index c < Suc i + length fs \<and> frame_index c \<le> length Hs \<and>
         stabilize_loop env dl Hs (Suc i) (cumulative_spec Hs i) fs = ([c], Some CvException)"
        by (intro Cons.IH) simp_all
      with False show ?thesis
        unfolding step by simp
    qed
  qed
qed

text \<open>
  For a chain of two identical matrices the matrix of frame 2 is the expression
  \<^verbatim>\<open>T.inv() * (T.inv() * eye)\<close>, whose value is OpenCV's to compute.
\<close>

lemma cumulative_spec_two_identical:
  "cumulative_spec [T, T] 2 = Mul (Inv (Matx T)) (Mul (Inv (Matx T)) (Matx eye))"
  by (simp add: numeral_2_eq_2)

text \<open>A non-empty image ends the run, whatever the chain.\<close>

lemma stabilize_loop_image:
  assumes "j < length fs" and "image_present env (i + j)"
  shows "snd (stabilize_loop env dl Hs i H fs) \<noteq> None"
  using assms
proof (induction fs arbitrary: i j H)
  case Nil
  then show ?case by simp
next
  case (Cons f fs)
  show ?case
  proof (cases "i \<le> length Hs")
    case False
    then have "length Hs < i" by simp
    from stabilize_loop_out_of_range [OF this] show ?thesis
      by simp
  next
    case True
    note step = stabilize_loop_in_range [OF True refl, of env dl H f fs]
    show ?thesis
    proof (cases "image_present env i")
      case True
      then show ?thesis unfolding step by simp
    next
      case False
      with Cons.prems(2) obtain j' where j: "j = Suc j'"
        by (cases j) auto
      with Cons.prems have "j' < length fs" and "image_present env (Suc i + j')"
        by simp_all
      from Cons.IH [OF this] False show ?thesis
        unfolding step by simp
    qed
  qed
qed

lemma Stabilize_image:
  assumes "j < length image_files" and "image_present env j"
  shows "snd (Stabilize env image_files Hs draw_lines) \<noteq> None"
proof -
  from assms(2) have "image_present env (0 + j)" by simp
  from stabilize_loop_image [OF assms(1) this]
  show ?thesis by (simp add: Stabilize_def)
qed

text \<open>A chain too short for the files ends the run as well.\<close>

lemma stabilize_loop_short:
  assumes "length Hs + 1 < i + length fs" and "i \<le> length Hs + 1"
  shows "snd (stabilize_loop env dl Hs i H fs) \<noteq> None"
  using assms
proof (induction fs arbitrary: i H)
  case Nil
  then show ?case by simp
next
  case (Cons f fs)
  show ?case
  proof (cases "i \<le> length Hs")
    case False
    then have "length Hs < i" by simp
    from stabilize_loop_out_of_range [OF this] show ?thesis
      by simp
  next
    case True
    note step = stabilize_loop_in_range [OF True refl, of env dl H f fs]
    from True have "Suc i \<le> length Hs + 1" by simp
    moreover from Cons.prems(1) have "length Hs + 1 < Suc i + length fs" by simp
    ultimately have IH: "\<And>H'. snd (stabilize_loop env dl Hs (Suc i) H' fs) \<noteq> None"
      using Cons.IH by blast
    show ?thesis
      unfolding step using IH by simp
  qed
qed

lemma size_assertion_short:
  assumes "k + 1 < n" and "n < 2 ^ 64 - 1"
  shows "\<not> size_assertion n k"
proof (cases "k = 0")
  case True
  have "(- 1 :: int) mod 2 ^ 64 = 2 ^ 64 - 1" by simp
  moreover have "int n mod 2 ^ 64 = int n" using assms(2) by simp
  moreover have "int n \<noteq> 2 ^ 64 - 1" using assms(2) by simp
  ultimately show ?thesis using True by (simp add: size_assertion_def)
next
  case False
  then have "(int k - 1) mod 2 ^ 64 = int k - 1" using assms by simp
  moreover have "int n mod 2 ^ 64 = int n" using assms(2) by simp
  ultimately show ?thesis using assms(1) by (simp add: size_assertion_def)
qed

text \<open>
  A chain with one matrix per consecutive pair of files, \<open>numImages - 1\<close> in all, is
  what the recurrence needs. The assertion as written (line 275) asks for two matrices
  more and stops the run.
\<close>

lemma size_assertion_full_chain:
  assumes "k + 1 = n" and "n < 2 ^ 64"
  shows "\<not> size_assertion n k"
proof (cases "k = 0")
  case True
  have "(- 1 :: int) mod 2 ^ 64 = 2 ^ 64 - 1" by simp
  moreover from True assms have "int n mod 2 ^ 64 = 1" by simp
  ultimately show ?thesis using True by (simp add: size_assertion_def)
next
  case False
  then have "(int k - 1) mod 2 ^ 64 = int k - 1" using assms by simp
  moreover have "int n mod 2 ^ 64 = int n" using assms(2) by simp
  ultimately show ?thesis using assms(1) by (simp add: size_assertion_def)
qed

lemma Stabilize_full_chain_assertion:
  assumes "\<not> NDEBUG env" and "length Hs + 1 = length image_files"
    and "length image_files < 2 ^ 64"
  shows "Stabilize env image_files Hs draw_lines = ([], Some AssertionFailed)"
  using assms(1) size_assertion_full_chain [OF assms(2,3)]
  by (simp add: Stabilize_def)

text \<open>
  C3. The claim is what \<^verbatim>\<open>Stabilize\<close> is written to do, and the matrix \<open>H\<close> of the
  loop follows its recurrence (\<open>stabilize_loop_calls\<close>), but no frame is warped with
  it. For two images and the chain of the one matrix that relates them, the claim asks
  for frame 0 warped with the identity and frame 1 with the inverse of the matrix.
  With the assertion compiled in, the run stops at line 275, which holds for a chain
  of three matrices only. With the assertion compiled out, frame 0 goes to
  \<^verbatim>\<open>cv::warpPerspective\<close> with \<open>H\<close> in the place of the destination and an empty
  matrix in the place of the transform, and the call throws.
\<close>

theorem Stabilize_warps_no_frame:
  "Stabilize (example_env False) [''a.png'', ''b.png''] [Matx33d 1 0 0  0 1 5  0 0 1] False =
     ([], Some AssertionFailed) \<and>
   Stabilize (example_env True) [''a.png'', ''b.png''] [Matx33d 1 0 0  0 1 5  0 0 1] False =
     ([\<lparr>frame_index = 0, dst = Matx eye, lines = False\<rparr>], Some CvException)"
  by (simp add: Stabilize_def size_assertion_def example_env_def stabilize_loop.simps)

text \<open>
  C4, as stated, fails: for three images of which the first two share a single
  correspondence the Euclidean chain has one matrix, and \<^verbatim>\<open>Stabilize\<close> stops at its
  assertion. With the assertion compiled out it stops at the call of
  \<^verbatim>\<open>cv::warpPerspective\<close> for the first frame or, when the images are empty, at the
  read of \<^verbatim>\<open>Hs[1]\<close>.
\<close>

theorem Stabilize_short_chain_counterexample:
  "relative_matrices_of example_estimators example_matches EUCLIDEAN =
     Inr [Matx33d 1 0 0  0 1 5  0 0 1] \<and>
   main (example_env False) example_estimators [''c.png'', ''a.png'', ''b.png'']
     example_matches EUCLIDEAN False = ([], Some AssertionFailed) \<and>
   snd (main (example_env True) example_estimators [''c.png'', ''a.png'', ''b.png'']
     example_matches EUCLIDEAN False) = Some CvException \<and>
   snd (main (example_env_empty True) example_estimators [''c.png'', ''a.png'', ''b.png'']
     example_matches EUCLIDEAN False) = Some UndefinedBehaviour"
  by (simp add: main_def relative_matrices_of_def EUCLIDEAN_def
      ComputeRelativeEuclideanMatrices_def relative_matrices_def Let_def
      example_matches_def example_estimators_def example_estimator_def translation_def
      MatToMatx_def Stabilize_def size_assertion_def example_env_def example_env_empty_def
      stabilize_loop.simps)

text \<open>
  C4, amended. \<^verbatim>\<open>Stabilize\<close> does not tolerate a chain with fewer than
  \<open>numImages - 1\<close> matrices: the run never completes. With the assertion compiled in
  it stops there, before any frame is processed; with the assertion compiled out only
  frames up to the length of the chain can be reached before \<^verbatim>\<open>Hs[i - 1]\<close> is read out
  of range.
\<close>

theorem Stabilize_short_chain:
  assumes "length Hs + 1 < length image_files"
  shows "snd (Stabilize env image_files Hs draw_lines) \<noteq> None \<and>
         (\<not> NDEBUG env \<and> length image_files < 2 ^ 64 - 1 \<longrightarrow>
            Stabilize env image_files Hs draw_lines = ([], Some AssertionFailed)) \<and>
         (\<forall>fr\<in>set (fst (Stabilize env image_files Hs draw_lines)).
            frame_index fr \<le> length Hs)"
proof (intro conjI impI ballI)
  from assms have ne: "image_files \<noteq> []" by auto
  have "snd (stabilize_loop env draw_lines Hs 0 (Matx eye) image_files) \<noteq> None"
    by (rule stabilize_loop_short) (use assms in simp_all)
  with ne show "snd (Stabilize env image_files Hs draw_lines) \<noteq> None"
    by (simp add: Stabilize_def)
next
  assume "\<not> NDEBUG env \<and> length image_files < 2 ^ 64 - 1"
  with size_assertion_short [OF assms]
  show "Stabilize env image_files Hs draw_lines = ([], Some AssertionFailed)"
    by (simp add: Stabilize_def)
next
  fix fr assume "fr \<in> set (fst (Stabilize env image_files Hs draw_lines))"
  then have "fr \<in> set (fst (stabilize_loop env draw_lines Hs 0 (Matx eye) image_files))"
    by (simp add: Stabilize_def split: if_splits)
  from stabilize_loop_calls [OF _ this] show "frame_index fr \<le> length Hs"
    by simp
qed

theorem Stabilize_short_chain_witness:
  "length [eye] + 1 < length [''a.png'', ''b.png'', ''c.png''] \<and>
   Stabilize (example_env False) [''a.png'', ''b.png'', ''c.png''] [eye] False =
     ([], Some AssertionFailed) \<and>
   snd (Stabilize (example_env True) [''a.png'', ''b.png'', ''c.png''] [eye] False) \<noteq> None \<and>
   map frame_index (fst (Stabilize (example_env True) [''a.png'', ''b.png'', ''c.png'']
     [eye] False)) = [0] \<and>
   snd (Stabilize (example_env_empty True) [''a.png'', ''b.png'', ''c.png''] [eye] False) =
     Some UndefinedBehaviour"
proof -
  have h: "length [eye] + 1 < length [''a.png'', ''b.png'', ''c.png'']" by simp
  have e: "\<not> NDEBUG (example_env False) \<and>
      length [''a.png'', ''b.png'', ''c.png''] < 2 ^ 64 - 1"
    by (simp add: example_env_def)
  have r: "map frame_index (fst (Stabilize (example_env True)
      [''a.png'', ''b.png'', ''c.png''] [eye] False)) = [0]"
    "snd (Stabilize (example_env_empty True) [''a.png'', ''b.png'', ''c.png''] [eye] False) =
     Some UndefinedBehaviour"
    by (simp_all add: Stabilize_def example_env_def example_env_empty_def
        stabilize_loop.simps)
  from Stabilize_short_chain [OF h, of "example_env False" False]
    Stabilize_short_chain [OF h, of "example_env True" False] e r h
  show ?thesis by simp
qed

section \<open>Properties of HomogeneousToEuclidean\<close>

lemma column_loop_second_out:
  assumes "length xD \<le> xo + xstep"
  shows "column_loop (Suc (Suc n)) Xo xo Xstep xstep hD c XD xD = Inl UndefinedBehaviour"
  using assms by simp

lemma cols_as_Mat_T_row: "cols (as_Mat_T T (row X d)) = cols X"
  by (simp add: as_Mat_T_def row_def rowRange_def)

text \<open>
  For an input with three or more rows and an output allocated with the right size,
  continuous and of element type \<open>T\<close>, the second iteration of the inner loop is
  already outside the output: the offset is a whole row in bytes, at least the
  \<open>rows * cols\<close> elements of the output as long as there are no more rows than
  \<open>T\<close> has bytes.
\<close>

lemma HomogeneousToEuclidean_T_stride:
  assumes "3 \<le> rows X" and "0 < cols X" and "rows X - 1 \<le> sizeof T"
    and "rows x = rows X - 1" and "cols x = cols X"
    and "step x = cols x * sizeof T" and "length (data x) = rows x * cols x"
  shows "HomogeneousToEuclidean_T T X x = Inl UndefinedBehaviour"
proof -
  from assms(1) have "rows X - 1 = Suc (Suc (rows X - 3))" by simp
  then obtain m where d: "rows X - Suc 0 = Suc (Suc m)" by simp
  from assms(2) obtain n where n: "cols X = Suc n"
    by (cases "cols X") auto
  have sz: "0 < sizeof T" by (cases T) auto
  with assms(2,5,6) have st: "step x \<noteq> 0" by simp
  have "length (data x) \<le> 0 + step x"
    using assms(3,4,5,6,7) by (simp add: mult.commute)
  then have col: "column_loop (Suc (Suc m)) 0 0 Xs (step x) hD 0 XD (data x)
      = Inl UndefinedBehaviour" for Xs hD XD
    by (rule column_loop_second_out)
  from assms(1) have r: "rows X \<noteq> 0" by simp
  show ?thesis
    using r st col
    by (simp add: HomogeneousToEuclidean_T_def Let_def cols_as_Mat_T_row n d
        del: column_loop.simps)
qed

text \<open>
  C9. The claim is what the function is written to do, but the code adds the step in
  bytes to pointers that count in elements. For a 3x2 matrix of doubles holding the
  points \<open>(2, 4, 2)\<close> and \<open>(3, 6, 3)\<close> and a 2x2 output, the first row of the first
  point is written and the second access is 16 elements on, outside both buffers; the
  claim asks for the output rows \<open>(1, 1)\<close> and \<open>(2, 2)\<close>.
\<close>

theorem HomogeneousToEuclidean_out_of_bounds:
  "HomogeneousToEuclidean
     \<lparr>rows = 3, cols = 2, depth = CV_64F, step = 16, data = [2, 3, 4, 6, 2, 3]\<rparr>
     \<lparr>rows = 2, cols = 2, depth = CV_64F, step = 16, data = [0, 0, 0, 0]\<rparr>
   = Inl UndefinedBehaviour"
  by (simp add: HomogeneousToEuclidean_def HomogeneousToEuclidean_T_def Let_def
      as_Mat_T_def row_def rowRange_def numeral_2_eq_2)

text \<open>
  Where the buffers are larger than the matrices, the accesses stay inside them and hit
  the wrong elements: the second row of the point is taken 8 elements after the first
  and written 8 elements after the first. With a single Euclidean row the inner loop
  runs once and the result is the quotient of the claim.
\<close>

lemma HomogeneousToEuclidean_wrong_element:
  "HomogeneousToEuclidean
     \<lparr>rows = 3, cols = 1, depth = CV_64F, step = 8,
      data = [2, 4, 2, 0, 0, 0, 0, 0, 7, 0, 0, 0, 0, 0, 0, 0, 0]\<rparr>
     \<lparr>rows = 2, cols = 1, depth = CV_64F, step = 8, data = [0, 0, 0, 0, 0, 0, 0, 0, 0]\<rparr>
   = Inr \<lparr>rows = 2, cols = 1, depth = CV_64F, step = 8,
          data = [1, 0, 0, 0, 0, 0, 0, 0, 7 / 2]\<rparr>"
  by (simp add: HomogeneousToEuclidean_def HomogeneousToEuclidean_T_def Let_def
      as_Mat_T_def row_def rowRange_def numeral_2_eq_2)

lemma HomogeneousToEuclidean_one_row:
  "HomogeneousToEuclidean
     \<lparr>rows = 2, cols = 2, depth = CV_64F, step = 16, data = [2, 3, 4, 6]\<rparr>
     \<lparr>rows = 1, cols = 2, depth = CV_64F, step = 16, data = [0, 0]\<rparr>
   = Inr \<lparr>rows = 1, cols = 2, depth = CV_64F, step = 16, data = [1 / 2, 1 / 2]\<rparr>"
  by (simp add: HomogeneousToEuclidean_def HomogeneousToEuclidean_T_def Let_def
      as_Mat_T_def row_def rowRange_def numeral_2_eq_2)

text \<open>
  An output that the caller has not allocated has step 0: the inner loop does not run
  and the output is left as it was.
\<close>

lemma points_loop_no_step: "points_loop n c d Xstep 0 hD XD xD = Inr xD"
  by (induction n arbitrary: c) simp_all

lemma HomogeneousToEuclidean_unallocated:
  assumes "rows X \<noteq> 0" and "step x = 0"
  shows "HomogeneousToEuclidean X x = Inr x"
  using assms
  by (simp add: HomogeneousToEuclidean_def HomogeneousToEuclidean_T_def Let_def
      points_loop_no_step)

lemma HomogeneousToEuclidean_dispatch:
  "HomogeneousToEuclidean X x =
     HomogeneousToEuclidean_T (if depth X = CV_32F then Float else Double) X x"
  by (simp add: HomogeneousToEuclidean_def)

end
